theory Spec2Isabelle
  imports Main
begin

section \<open>The rocm-smi exporter: values, floats and text\<close>

text \<open>
  The exporter (\<^verbatim>\<open>src/main.py\<close>) reads the JSON status of \<^verbatim>\<open>rocm-smi\<close>, normalises each
  field to a float and stores it in a Prometheus gauge. The model below follows the
  source function by function.

  Scope of the data model. A record is a flat JSON object: each field is \<^verbatim>\<open>null\<close>, a
  boolean, an integer, a float or a string (nested arrays and objects are not
  modelled). Text is a list of 8-bit characters read as the code points 0 to 255.
\<close>

subsection \<open>Python floats (IEEE 754 binary64)\<close>

text \<open>
  A finite double is \<open>Fin m e\<close>, the number \<open>m * 2 ^ e\<close>, kept in canonical form: \<open>m\<close>
  odd, or \<open>Fin 0 0\<close> for \<open>+0.0\<close>. \<open>NegZero\<close> is \<open>-0.0\<close>. Conversions and products are
  exact results rounded to nearest, ties to even, as CPython computes them.
\<close>

datatype pyfloat = Fin int int | NegZero | PInf | NInf | NaN

fun bit_length :: "nat \<Rightarrow> nat" where
  "bit_length n = (if n = 0 then 0 else Suc (bit_length (n div 2)))"

fun strip_twos :: "nat \<Rightarrow> int \<Rightarrow> nat \<times> int" where
  "strip_twos m e = (if m \<noteq> 0 \<and> even m then strip_twos (m div 2) (e + 1) else (m, e))"

declare bit_length.simps [simp del] strip_twos.simps [simp del]

text \<open>
  \<open>round_ratio neg p q\<close> is the double nearest to \<open>p / q\<close> (with \<open>0 < q\<close>), negated when
  \<open>neg\<close>: \<open>e\<close> is \<open>\<lfloor>log\<^sub>2 (p / q)\<rfloor>\<close>, \<open>x\<close> the exponent of the unit in the last place
  (53 significant bits, subnormals below \<open>2 ^ - 1022\<close>), \<open>m\<close> the rounded significand.
\<close>

definition round_ratio :: "bool \<Rightarrow> nat \<Rightarrow> nat \<Rightarrow> pyfloat" where
  "round_ratio neg p q =
     (if p = 0 then (if neg then NegZero else Fin 0 0)
      else let d = int (bit_length p) - int (bit_length q);
               e = (if q * 2 ^ nat d \<le> p * 2 ^ nat (- d) then d else d - 1);
               x = max (e - 52) (- 1074);
               num = p * 2 ^ nat (- x);
               den = q * 2 ^ nat x;
               f = num div den;
               r = num mod den;
               m = (if 2 * r < den then f else if den < 2 * r then f + 1
                    else if even f then f else f + 1)
           in if m = 0 then (if neg then NegZero else Fin 0 0)
              else if 1024 < int (bit_length m) + x then (if neg then NInf else PInf)
              else (case strip_twos m x of (m', e') \<Rightarrow>
                      Fin (if neg then - int m' else int m') e'))"

fun sign_bit :: "pyfloat \<Rightarrow> bool" where
  "sign_bit (Fin m e) = (m < 0)"
| "sign_bit NegZero = True"
| "sign_bit PInf = False"
| "sign_bit NInf = True"
| "sign_bit NaN = False"

fun is_zero :: "pyfloat \<Rightarrow> bool" where
  "is_zero (Fin m e) = (m = 0)"
| "is_zero NegZero = True"
| "is_zero _ = False"

fun is_inf :: "pyfloat \<Rightarrow> bool" where
  "is_inf PInf = True"
| "is_inf NInf = True"
| "is_inf _ = False"

fun is_finite :: "pyfloat \<Rightarrow> bool" where
  "is_finite (Fin m e) = True"
| "is_finite NegZero = True"
| "is_finite _ = False"

fun mantissa :: "pyfloat \<Rightarrow> nat" where
  "mantissa (Fin m e) = nat \<bar>m\<bar>"
| "mantissa _ = 0"

fun exponent :: "pyfloat \<Rightarrow> int" where
  "exponent (Fin m e) = e"
| "exponent _ = 0"

text \<open>The product \<^verbatim>\<open>a * b\<close> of two floats.\<close>

definition fmul :: "pyfloat \<Rightarrow> pyfloat \<Rightarrow> pyfloat" where
  "fmul a b =
     (if a = NaN \<or> b = NaN then NaN
      else if is_inf a \<or> is_inf b then
        (if is_zero a \<or> is_zero b then NaN
         else if sign_bit a \<noteq> sign_bit b then NInf else PInf)
      else round_ratio (sign_bit a \<noteq> sign_bit b)
             (mantissa a * mantissa b * 2 ^ nat (exponent a + exponent b))
             (2 ^ nat (- (exponent a + exponent b))))"

datatype error = OverflowError | CalledProcessError int | OSError | JSONDecodeError

text \<open>
  \<^verbatim>\<open>float(i)\<close> for an integer: the nearest double, and OverflowError when that would
  lie beyond the largest double (from \<open>2 ^ 1024 - 2 ^ 970\<close> on).
\<close>

definition py_float_of_int :: "int \<Rightarrow> error + pyfloat" where
  "py_float_of_int i =
     (if 2 ^ 1024 - 2 ^ 970 \<le> \<bar>i\<bar> then Inl OverflowError
      else Inr (round_ratio (i < 0) (nat \<bar>i\<bar>) 1))"

text \<open>The literals \<^verbatim>\<open>1.0\<close>, \<^verbatim>\<open>0.0\<close> and \<^verbatim>\<open>0.1\<close> of the source.\<close>

definition lit_1_0 :: pyfloat where
  "lit_1_0 = Fin 1 0"

definition lit_0_0 :: pyfloat where
  "lit_0_0 = Fin 0 0"

definition lit_0_1 :: pyfloat where
  "lit_0_1 = round_ratio False 1 10"

subsection \<open>Text\<close>

text \<open>
  \<open>is_space\<close> is \<^verbatim>\<open>str.isspace\<close> on the code points below 256, the set that
  \<^verbatim>\<open>str.strip()\<close> removes and that \<^verbatim>\<open>\s\<close> matches.
\<close>

definition is_space :: "char \<Rightarrow> bool" where
  "is_space c \<longleftrightarrow>
     c \<in> set [CHR 0x09, CHR 0x0A, CHR 0x0B, CHR 0x0C, CHR 0x0D, CHR 0x1C, CHR 0x1D,
              CHR 0x1E, CHR 0x1F, CHR 0x20, CHR 0x85, CHR 0xA0]"

definition strip :: "string \<Rightarrow> string" where
  "strip s = rev (dropWhile is_space (rev (dropWhile is_space s)))"

text \<open>
  \<^verbatim>\<open>str.upper()\<close> on the ASCII letters. The source only compares the result with
  \<^verbatim>\<open>"N/A"\<close>, and no other character has an upper-case form made of \<^verbatim>\<open>N\<close>, \<^verbatim>\<open>/\<close> or \<^verbatim>\<open>A\<close>,
  so the remaining letters are left as they are.
\<close>

definition upper_char :: "char \<Rightarrow> char" where
  "upper_char c =
     (case map_of (zip ''abcdefghijklmnopqrstuvwxyz'' ''ABCDEFGHIJKLMNOPQRSTUVWXYZ'') c of
        Some u \<Rightarrow> u
      | None \<Rightarrow> c)"

definition upper :: "string \<Rightarrow> string" where
  "upper s = map upper_char s"

definition is_digit :: "char \<Rightarrow> bool" where
  "is_digit c \<longleftrightarrow> c \<in> set ''0123456789''"

definition digit_val :: "char \<Rightarrow> nat" where
  "digit_val c =
     (case map_of (zip ''0123456789'' [0, 1, 2, 3, 4, 5, 6, 7, 8, 9]) c of
        Some d \<Rightarrow> d
      | None \<Rightarrow> 0)"

definition nat_of_digits :: "string \<Rightarrow> nat" where
  "nat_of_digits ds = foldl (\<lambda>a c. 10 * a + digit_val c) 0 ds"

definition starts_with_digit :: "string \<Rightarrow> bool" where
  "starts_with_digit s = (case s of [] \<Rightarrow> False | c # _ \<Rightarrow> is_digit c)"

text \<open>
  \<^verbatim>\<open>_rx_number = re.compile(r"[-+]?\d+(?:\.\d+)?")\<close>. \<open>rx_number_match s\<close> is the match
  anchored at the start of \<open>s\<close>, \<open>rx_number_search\<close> the leftmost match
  (\<^verbatim>\<open>_rx_number.search(s).group(0)\<close>).
\<close>

definition rx_number_match :: "string \<Rightarrow> string option" where
  "rx_number_match s =
     (let (sgn, rest) =
            (case s of
               c # cs \<Rightarrow> if (c = CHR ''-'' \<or> c = CHR ''+'') \<and> starts_with_digit cs
                         then ([c], cs) else ([], s)
             | [] \<Rightarrow> ([], s))
      in if starts_with_digit rest then
           (let ds = takeWhile is_digit rest;
                after = dropWhile is_digit rest;
                frac = (case after of
                          c # cs \<Rightarrow> if c = CHR ''.'' \<and> starts_with_digit cs
                                    then c # takeWhile is_digit cs else []
                        | [] \<Rightarrow> [])
            in Some (sgn @ ds @ frac))
         else None)"

fun rx_number_search :: "string \<Rightarrow> string option" where
  "rx_number_search [] = None"
| "rx_number_search (c # cs) =
     (case rx_number_match (c # cs) of
        Some t \<Rightarrow> Some t
      | None \<Rightarrow> rx_number_search cs)"

text \<open>
  \<^verbatim>\<open>float(t)\<close> for a text \<open>t\<close> of the shape the pattern matches: an optional sign,
  digits, and optionally a point and digits. The decimal value is rounded to the nearest
  double; too large a value gives an infinity, not an error.
\<close>

definition is_negative :: "string \<Rightarrow> bool" where
  "is_negative t = (case t of c # _ \<Rightarrow> c = CHR ''-'' | [] \<Rightarrow> False)"

definition unsigned :: "string \<Rightarrow> string" where
  "unsigned t = dropWhile (\<lambda>c. c = CHR ''-'' \<or> c = CHR ''+'') t"

definition int_part :: "string \<Rightarrow> string" where
  "int_part t = takeWhile is_digit (unsigned t)"

definition frac_part :: "string \<Rightarrow> string" where
  "frac_part t = drop 1 (dropWhile is_digit (unsigned t))"

definition float_of_decimal :: "string \<Rightarrow> pyfloat" where
  "float_of_decimal t =
     round_ratio (is_negative t) (nat_of_digits (int_part t @ frac_part t))
       (10 ^ length (frac_part t))"

subsection \<open>Field values and the Value Normalizer\<close>

datatype pyval = PNone | PBool bool | PInt int | PFloat pyfloat | PStr string

text \<open>
  \<^verbatim>\<open>_is_na(v)\<close>: a bool is an \<^verbatim>\<open>int\<close> in Python, so it takes the numeric branch; for a
  string \<^verbatim>\<open>str(v)\<close> is the string itself.
\<close>

fun is_na :: "pyval \<Rightarrow> bool" where
  "is_na PNone = True"
| "is_na (PBool b) = False"
| "is_na (PInt i) = False"
| "is_na (PFloat f) = False"
| "is_na (PStr s) = (upper (strip s) = ''N/A'')"

text \<open>
  \<^verbatim>\<open>_to_float(v, *, scale=1.0)\<close>. The result is \<open>Inl\<close> an exception, \<open>Inr None\<close> for
  Python's \<^verbatim>\<open>None\<close>, or \<open>Inr (Some x)\<close> for a float.
\<close>

definition to_float :: "pyval \<Rightarrow> pyfloat \<Rightarrow> error + pyfloat option" where
  "to_float v scale =
     (if is_na v then Inr None
      else case v of
        PNone \<Rightarrow> Inr None
      | PBool b \<Rightarrow> Inr (Some (fmul (if b then lit_1_0 else lit_0_0) scale))
      | PInt i \<Rightarrow>
          (case py_float_of_int i of
             Inl err \<Rightarrow> Inl err
           | Inr x \<Rightarrow> Inr (Some (fmul x scale)))
      | PFloat x \<Rightarrow> Inr (Some (fmul x scale))
      | PStr s \<Rightarrow>
          (case rx_number_search s of
             None \<Rightarrow> Inr None
           | Some t \<Rightarrow> Inr (Some (fmul (float_of_decimal t) scale))))"

subsection \<open>Records and the Schema Reconciler\<close>

type_synonym fields = "string \<rightharpoonup> pyval"

text \<open>\<^verbatim>\<open>_first_key(d, keys)\<close>: the first name of \<open>keys\<close> that is a key of \<open>d\<close>.\<close>

fun first_key :: "fields \<Rightarrow> string list \<Rightarrow> string option" where
  "first_key d [] = None"
| "first_key d (k # ks) = (if d k \<noteq> None then Some k else first_key d ks)"

text \<open>
  \<^verbatim>\<open>m.get(key)\<close> and \<^verbatim>\<open>m.get(key, default)\<close>. The key may be the \<^verbatim>\<open>None\<close> that
  \<^verbatim>\<open>_first_key\<close> returned, which is never a key of a JSON object.
\<close>

fun dict_get :: "fields \<Rightarrow> string option \<Rightarrow> pyval" where
  "dict_get m None = PNone"
| "dict_get m (Some k) = (case m k of None \<Rightarrow> PNone | Some v \<Rightarrow> v)"

definition dict_get_default :: "fields \<Rightarrow> string \<Rightarrow> pyval \<Rightarrow> pyval" where
  "dict_get_default m k dflt = (case m k of None \<Rightarrow> dflt | Some v \<Rightarrow> v)"

text \<open>The reconciled source value \<^verbatim>\<open>m.get(_first_key(m, keys))\<close> of a logical metric.\<close>

definition reconcile :: "fields \<Rightarrow> string list \<Rightarrow> pyval" where
  "reconcile m keys = dict_get m (first_key m keys)"

section \<open>The Metric Registry and the Device Snapshot Processor\<close>

subsection \<open>Label values\<close>

text \<open>
  The client library turns every label value into text with \<^verbatim>\<open>str()\<close> when a gauge
  child is looked up. The shortest-repr printing of a float is a parameter \<open>frepr\<close> of
  the model.
\<close>

definition digit_char :: "nat \<Rightarrow> char" where
  "digit_char n = ''0123456789'' ! n"

fun str_of_nat :: "nat \<Rightarrow> string" where
  "str_of_nat n =
     (if n < 10 then [digit_char n] else str_of_nat (n div 10) @ [digit_char (n mod 10)])"

declare str_of_nat.simps [simp del]

fun py_str :: "(pyfloat \<Rightarrow> string) \<Rightarrow> pyval \<Rightarrow> string" where
  "py_str frepr PNone = ''None''"
| "py_str frepr (PBool b) = (if b then ''True'' else ''False'')"
| "py_str frepr (PInt i) = (if i < 0 then CHR ''-'' # str_of_nat (nat (- i)) else str_of_nat (nat i))"
| "py_str frepr (PFloat x) = frepr x"
| "py_str frepr (PStr s) = s"

text \<open>Truthiness of a value, and \<^verbatim>\<open>a or b\<close>.\<close>

fun truthy :: "pyval \<Rightarrow> bool" where
  "truthy PNone = False"
| "truthy (PBool b) = b"
| "truthy (PInt i) = (i \<noteq> 0)"
| "truthy (PFloat x) = (\<not> is_zero x)"
| "truthy (PStr s) = (s \<noteq> [])"

definition py_or :: "pyval \<Rightarrow> pyval \<Rightarrow> pyval" where
  "py_or a b = (if truthy a then a else b)"

subsection \<open>Gauges and samples\<close>

text \<open>
  One constructor per gauge of the source. A sample is the last value set for a gauge
  and a list of label values (in the order of the gauge's label names); the registry maps
  the pairs that have a sample to it.
\<close>

datatype gauge =
    gpuEdgeTemperature | gpuJunctionTemperature | gpuMemTemperature
  | gpuUsage | gpuVRAMUsage | umcActivity | mmActivity
  | socketPowerNow | socketPowerAvg | pkgPowerAvg | pkgPowerMax
  | voltageMilliV | fanRpm | clkCurrentMHz | clkAverageMHz
  | pcieWidthLanes | pcieSpeedGTs | energyAccumulatorUJ | accumulatedEnergyUJ
  | deviceInfo | softwareInfo

type_synonym registry = "gauge \<times> string list \<rightharpoonup> pyfloat"

text \<open>\<^verbatim>\<open>gauge.labels(...).set(v)\<close>: creates the sample or overwrites it.\<close>

definition publish :: "gauge \<Rightarrow> string list \<Rightarrow> pyfloat \<Rightarrow> registry \<Rightarrow> registry" where
  "publish g ls v reg = reg((g, ls) \<mapsto> v)"

text \<open>
  \<^verbatim>\<open>_set_if_not_none(gauge, labels, value)\<close>. \<^verbatim>\<open>float(value)\<close> is the value itself, and
  with the fixed label names of the source the lookup of the child does not raise, so the
  \<^verbatim>\<open>except\<close> branch is not taken.
\<close>

definition set_if_not_none :: "gauge \<Rightarrow> string list \<Rightarrow> pyfloat option \<Rightarrow> registry \<Rightarrow> registry" where
  "set_if_not_none g ls value reg =
     (case value of None \<Rightarrow> reg | Some v \<Rightarrow> publish g ls v reg)"

subsection \<open>One device record\<close>

text \<open>
  A statement of the loop body is a step on the registry that may raise. An argument is
  evaluated before the call: \<open>bind_arg a f\<close> raises what \<open>a\<close> raises and otherwise runs
  \<open>f\<close> on its value. \<open>run_steps\<close> runs the statements in order and stops at the first
  exception, keeping the registry as it is at that point.
\<close>

type_synonym step = "registry \<Rightarrow> error + registry"

definition bind_arg :: "error + 'a \<Rightarrow> ('a \<Rightarrow> registry \<Rightarrow> registry) \<Rightarrow> step" where
  "bind_arg a f reg = (case a of Inl err \<Rightarrow> Inl err | Inr v \<Rightarrow> Inr (f v reg))"

fun run_steps :: "step list \<Rightarrow> registry \<Rightarrow> error option \<times> registry" where
  "run_steps [] reg = (None, reg)"
| "run_steps (s # ss) reg =
     (case s reg of Inl err \<Rightarrow> (Some err, reg) | Inr reg' \<Rightarrow> run_steps ss reg')"

definition labels :: "(pyfloat \<Rightarrow> string) \<Rightarrow> fields \<Rightarrow> string list" where
  "labels frepr m =
     [py_str frepr (dict_get_default m ''Device Name'' (PStr ''unknown'')),
      py_str frepr (dict_get_default m ''Device ID'' (PStr ''unknown'')),
      py_str frepr (dict_get_default m ''Subsystem ID'' (PStr ''unknown''))]"

definition gfx_version :: "(pyfloat \<Rightarrow> string) \<Rightarrow> fields \<Rightarrow> string" where
  "gfx_version frepr m =
     py_str frepr (py_or (dict_get_default m ''GFX Version'' (PStr []))
                         (dict_get_default m ''GFX version'' (PStr [])))"

definition device_info_labels :: "(pyfloat \<Rightarrow> string) \<Rightarrow> fields \<Rightarrow> string list" where
  "device_info_labels frepr m =
     labels frepr m @
     [py_str frepr (dict_get_default m ''VBIOS version'' (PStr [])),
      gfx_version frepr m,
      py_str frepr (dict_get_default m ''Card Series'' (PStr [])),
      py_str frepr (dict_get_default m ''Card Vendor'' (PStr []))]"

definition device_info_step :: "(pyfloat \<Rightarrow> string) \<Rightarrow> fields \<Rightarrow> step" where
  "device_info_step frepr m reg = Inr (publish deviceInfo (device_info_labels frepr m) lit_1_0 reg)"

text \<open>The body of the loop over the cards, statement by statement.\<close>

definition device_steps :: "(pyfloat \<Rightarrow> string) \<Rightarrow> fields \<Rightarrow> step list" where
  "device_steps frepr m =
     [device_info_step frepr m,
      bind_arg (to_float (dict_get m (first_key m
                  [''Temperature (Sensor edge) (C)'', ''temperature_edge (C)''])) lit_1_0)
        (set_if_not_none gpuEdgeTemperature (labels frepr m)),
      bind_arg (to_float (dict_get m (first_key m
                  [''Temperature (Sensor junction) (C)'', ''temperature_hotspot (C)''])) lit_1_0)
        (set_if_not_none gpuJunctionTemperature (labels frepr m)),
      bind_arg (to_float (dict_get m (first_key m
                  [''Temperature (Sensor memory) (C)'', ''temperature_mem (C)''])) lit_1_0)
        (set_if_not_none gpuMemTemperature (labels frepr m)),
      bind_arg (to_float (dict_get m (first_key m
                  [''GPU use (%)'', ''average_gfx_activity (%)''])) lit_1_0)
        (set_if_not_none gpuUsage (labels frepr m)),
      bind_arg (to_float (dict_get m (Some ''GPU Memory Allocated (VRAM%)'')) lit_1_0)
        (set_if_not_none gpuVRAMUsage (labels frepr m)),
      bind_arg (to_float (dict_get m (Some ''average_umc_activity (%)'')) lit_1_0)
        (set_if_not_none umcActivity (labels frepr m)),
      bind_arg (to_float (dict_get m (Some ''average_mm_activity (%)'')) lit_1_0)
        (set_if_not_none mmActivity (labels frepr m)),
      bind_arg (to_float (dict_get m (first_key m
                  [''Current Socket Graphics Package Power (W)'',
                   ''current_socket_power (W)''])) lit_1_0)
        (set_if_not_none socketPowerNow (labels frepr m)),
      bind_arg (to_float (dict_get m (first_key m [''average_socket_power (W)''])) lit_1_0)
        (set_if_not_none socketPowerAvg (labels frepr m)),
      bind_arg (to_float (dict_get m (first_key m
                  [''Average Graphics Package Power (W)''])) lit_1_0)
        (set_if_not_none pkgPowerAvg (labels frepr m)),
      bind_arg (to_float (dict_get m (first_key m [''Max Graphics Package Power (W)''])) lit_1_0)
        (set_if_not_none pkgPowerMax (labels frepr m))]
     @ map (\<lambda>(rail_key, rail_name).
              bind_arg (to_float (dict_get m (Some rail_key)) lit_1_0)
                (\<lambda>v reg. case v of None \<Rightarrow> reg
                   | Some x \<Rightarrow> publish voltageMilliV (labels frepr m @ [rail_name]) x reg))
         [(''voltage_soc (mV)'', ''soc''), (''voltage_gfx (mV)'', ''gfx''),
          (''voltage_mem (mV)'', ''mem''), (''Voltage (mV)'', ''vcore'')]
     @ [bind_arg (to_float (dict_get m (Some ''current_fan_speed (rpm)'')) lit_1_0)
          (set_if_not_none fanRpm (labels frepr m))]
     @ map (\<lambda>(key, cname).
              bind_arg (to_float (dict_get m (Some key)) lit_1_0)
                (\<lambda>val reg. case val of None \<Rightarrow> reg
                   | Some x \<Rightarrow> publish clkCurrentMHz (labels frepr m @ [cname]) x reg))
         [(''current_gfxclk (MHz)'', ''gfxclk''), (''current_socclk (MHz)'', ''socclk''),
          (''current_uclk (MHz)'', ''uclk''), (''current_vclk0 (MHz)'', ''vclk0''),
          (''current_dclk0 (MHz)'', ''dclk0'')]
     @ map (\<lambda>(key, cname).
              bind_arg (to_float (dict_get m (Some key)) lit_1_0)
                (\<lambda>val reg. case val of None \<Rightarrow> reg
                   | Some x \<Rightarrow> publish clkAverageMHz (labels frepr m @ [cname]) x reg))
         [(''average_gfxclk_frequency (MHz)'', ''gfxclk''),
          (''average_socclk_frequency (MHz)'', ''socclk''),
          (''average_uclk_frequency (MHz)'', ''uclk''),
          (''average_vclk0_frequency (MHz)'', ''vclk0''),
          (''average_dclk0_frequency (MHz)'', ''dclk0'')]
     @ [bind_arg (to_float (dict_get m (Some ''pcie_link_width (Lanes)'')) lit_1_0)
          (\<lambda>width reg. case width of None \<Rightarrow> reg
             | Some x \<Rightarrow> publish pcieWidthLanes (labels frepr m) x reg),
        bind_arg (to_float (dict_get m (Some ''pcie_link_speed (0.1 GT/s)'')) lit_1_0)
          (\<lambda>speed_01 reg. case speed_01 of None \<Rightarrow> reg
             | Some x \<Rightarrow> publish pcieSpeedGTs (labels frepr m) (fmul x lit_0_1) reg),
        bind_arg (to_float (dict_get m (first_key m
                    [''energy_accumulator (15.259uJ (2^-16))'', ''Energy counter''])) lit_1_0)
          (set_if_not_none energyAccumulatorUJ (labels frepr m)),
        bind_arg (to_float (dict_get m (Some ''Accumulated Energy (uJ)'')) lit_1_0)
          (set_if_not_none accumulatedEnergyUJ (labels frepr m))]"

definition process_device ::
  "(pyfloat \<Rightarrow> string) \<Rightarrow> fields \<Rightarrow> registry \<Rightarrow> error option \<times> registry" where
  "process_device frepr m reg = run_steps (device_steps frepr m) reg"

subsection \<open>The statements as a table of logical metrics\<close>

text \<open>
  Every statement of the loop body after the device-info gauge has one shape: a gauge,
  the label values added to the device identity (the rail or the clock domain), the
  candidate field names, and the factor applied to the normalised value when it is
  published (only the PCIe link speed has one). \<open>device_steps_table\<close> below proves that
  the table is the loop body.
\<close>

datatype metric =
  Metric (m_gauge: gauge) (m_extra: "string list") (m_keys: "string list")
    (m_factor: "pyfloat option")

definition logical_metrics :: "metric list" where
  "logical_metrics =
     [Metric gpuEdgeTemperature [] [''Temperature (Sensor edge) (C)'', ''temperature_edge (C)''] None,
      Metric gpuJunctionTemperature []
        [''Temperature (Sensor junction) (C)'', ''temperature_hotspot (C)''] None,
      Metric gpuMemTemperature []
        [''Temperature (Sensor memory) (C)'', ''temperature_mem (C)''] None,
      Metric gpuUsage [] [''GPU use (%)'', ''average_gfx_activity (%)''] None,
      Metric gpuVRAMUsage [] [''GPU Memory Allocated (VRAM%)''] None,
      Metric umcActivity [] [''average_umc_activity (%)''] None,
      Metric mmActivity [] [''average_mm_activity (%)''] None,
      Metric socketPowerNow []
        [''Current Socket Graphics Package Power (W)'', ''current_socket_power (W)''] None,
      Metric socketPowerAvg [] [''average_socket_power (W)''] None,
      Metric pkgPowerAvg [] [''Average Graphics Package Power (W)''] None,
      Metric pkgPowerMax [] [''Max Graphics Package Power (W)''] None,
      Metric voltageMilliV [''soc''] [''voltage_soc (mV)''] None,
      Metric voltageMilliV [''gfx''] [''voltage_gfx (mV)''] None,
      Metric voltageMilliV [''mem''] [''voltage_mem (mV)''] None,
      Metric voltageMilliV [''vcore''] [''Voltage (mV)''] None,
      Metric fanRpm [] [''current_fan_speed (rpm)''] None,
      Metric clkCurrentMHz [''gfxclk''] [''current_gfxclk (MHz)''] None,
      Metric clkCurrentMHz [''socclk''] [''current_socclk (MHz)''] None,
      Metric clkCurrentMHz [''uclk''] [''current_uclk (MHz)''] None,
      Metric clkCurrentMHz [''vclk0''] [''current_vclk0 (MHz)''] None,
      Metric clkCurrentMHz [''dclk0''] [''current_dclk0 (MHz)''] None,
      Metric clkAverageMHz [''gfxclk''] [''average_gfxclk_frequency (MHz)''] None,
      Metric clkAverageMHz [''socclk''] [''average_socclk_frequency (MHz)''] None,
      Metric clkAverageMHz [''uclk''] [''average_uclk_frequency (MHz)''] None,
      Metric clkAverageMHz [''vclk0''] [''average_vclk0_frequency (MHz)''] None,
      Metric clkAverageMHz [''dclk0''] [''average_dclk0_frequency (MHz)''] None,
      Metric pcieWidthLanes [] [''pcie_link_width (Lanes)''] None,
      Metric pcieSpeedGTs [] [''pcie_link_speed (0.1 GT/s)''] (Some lit_0_1),
      Metric energyAccumulatorUJ []
        [''energy_accumulator (15.259uJ (2^-16))'', ''Energy counter''] None,
      Metric accumulatedEnergyUJ [] [''Accumulated Energy (uJ)''] None]"

definition scaled :: "pyfloat option \<Rightarrow> pyfloat \<Rightarrow> pyfloat" where
  "scaled factor x = (case factor of None \<Rightarrow> x | Some c \<Rightarrow> fmul x c)"

definition sample_key :: "(pyfloat \<Rightarrow> string) \<Rightarrow> fields \<Rightarrow> metric \<Rightarrow> gauge \<times> string list" where
  "sample_key frepr m lm = (m_gauge lm, labels frepr m @ m_extra lm)"

definition metric_step :: "(pyfloat \<Rightarrow> string) \<Rightarrow> fields \<Rightarrow> metric \<Rightarrow> step" where
  "metric_step frepr m lm =
     bind_arg (to_float (reconcile m (m_keys lm)) lit_1_0)
       (\<lambda>v reg. case v of None \<Rightarrow> reg
          | Some x \<Rightarrow> publish (m_gauge lm) (labels frepr m @ m_extra lm)
                       (scaled (m_factor lm) x) reg)"

subsection \<open>One poll cycle and the poll loop\<close>

text \<open>
  The outcome of \<^verbatim>\<open>subprocess.check_output\<close>: the output of the command, the exception
  CalledProcessError for a non-zero exit status, or an OSError when the command could
  not be started at all.
\<close>

datatype proc_result = Completed string | NonZeroExit int | SpawnFailed

text \<open>
  A snapshot is the parsed JSON object: its items in order, the key \<^verbatim>\<open>"system"\<close> or a card
  name first and the record second, with distinct keys. The JSON parser is a parameter
  \<open>loads\<close> of the model; \<open>None\<close> stands for its decoding error. JSON of any other shape is
  not modelled.
\<close>

type_synonym snapshot = "(string \<times> fields) list"

definition getGPUMetrics :: "(string \<Rightarrow> snapshot option) \<Rightarrow> proc_result \<Rightarrow> error + snapshot" where
  "getGPUMetrics loads res =
     (case res of
        Completed out \<Rightarrow>
          (case loads out of None \<Rightarrow> Inl JSONDecodeError | Some data \<Rightarrow> Inr data)
      | NonZeroExit rc \<Rightarrow> Inl (CalledProcessError rc)
      | SpawnFailed \<Rightarrow> Inl OSError)"

definition software_info ::
  "(pyfloat \<Rightarrow> string) \<Rightarrow> string \<times> string \<Rightarrow> snapshot \<Rightarrow> registry \<Rightarrow> registry" where
  "software_info frepr vers data reg =
     (case map_of data ''system'' of
        None \<Rightarrow> reg
      | Some sys \<Rightarrow>
          (case sys ''Driver version'' of
             None \<Rightarrow> reg
           | Some dv \<Rightarrow>
               publish softwareInfo [strip (py_str frepr dv), fst vers, snd vers] lit_1_0 reg))"

fun process_cards ::
  "(pyfloat \<Rightarrow> string) \<Rightarrow> snapshot \<Rightarrow> registry \<Rightarrow> error option \<times> registry" where
  "process_cards frepr [] reg = (None, reg)"
| "process_cards frepr ((card_name, m) # rest) reg =
     (if card_name = ''system'' then process_cards frepr rest reg
      else case process_device frepr m reg of
             (Some err, reg') \<Rightarrow> (Some err, reg')
           | (None, reg') \<Rightarrow> process_cards frepr rest reg')"

definition process_snapshot ::
  "(pyfloat \<Rightarrow> string) \<Rightarrow> string \<times> string \<Rightarrow> snapshot \<Rightarrow> registry \<Rightarrow> error option \<times> registry" where
  "process_snapshot frepr vers data reg =
     process_cards frepr data (software_info frepr vers data reg)"

text \<open>
  One iteration of \<^verbatim>\<open>while True\<close>: the error, if any, that leaves the loop, and the
  registry at that point.
\<close>

definition cycle ::
  "(pyfloat \<Rightarrow> string) \<Rightarrow> (string \<Rightarrow> snapshot option) \<Rightarrow> string \<times> string \<Rightarrow>
     proc_result \<Rightarrow> registry \<Rightarrow> error option \<times> registry" where
  "cycle frepr loads vers res reg =
     (case getGPUMetrics loads res of
        Inl err \<Rightarrow> (Some err, reg)
      | Inr data \<Rightarrow> process_snapshot frepr vers data reg)"

text \<open>
  The poll loop over the outcomes of the successive status commands. Nothing catches an
  exception of a cycle, so the first one ends the process; \<open>None\<close> means that the loop is
  still running after the given cycles.
\<close>

fun poll_loop ::
  "(pyfloat \<Rightarrow> string) \<Rightarrow> (string \<Rightarrow> snapshot option) \<Rightarrow> string \<times> string \<Rightarrow>
     proc_result list \<Rightarrow> registry \<Rightarrow> error option \<times> registry" where
  "poll_loop frepr loads vers [] reg = (None, reg)"
| "poll_loop frepr loads vers (res # rest) reg =
     (case cycle frepr loads vers res reg of
        (Some err, reg') \<Rightarrow> (Some err, reg')
      | (None, reg') \<Rightarrow> poll_loop frepr loads vers rest reg')"

subsection \<open>The version query at startup\<close>

text \<open>
  \<^verbatim>\<open>re.search(label + r"\s*(.+)", out)\<close> for a literal label: \<open>rx_rest_group\<close> matches
  \<^verbatim>\<open>\s*(.+)\<close> right after the label and gives group 1. The greedy \<^verbatim>\<open>\s*\<close> takes the whole
  run of whitespace and the group runs to the end of the line; when only whitespace
  follows the label, backtracking leaves its last character that is not a newline to the
  group.
\<close>

definition rx_rest_group :: "string \<Rightarrow> string option" where
  "rx_rest_group rest =
     (case dropWhile is_space rest of
        c # cs \<Rightarrow> Some (takeWhile (\<lambda>d. d \<noteq> CHR 0x0A) (c # cs))
      | [] \<Rightarrow>
          (case dropWhile (\<lambda>d. d = CHR 0x0A) (rev rest) of
             c # _ \<Rightarrow> Some [c]
           | [] \<Rightarrow> None))"

fun rx_labelled_search :: "string \<Rightarrow> string \<Rightarrow> string option" where
  "rx_labelled_search lbl [] = None"
| "rx_labelled_search lbl (c # cs) =
     (if take (length lbl) (c # cs) = lbl then
        (case rx_rest_group (drop (length lbl) (c # cs)) of
           Some g \<Rightarrow> Some g
         | None \<Rightarrow> rx_labelled_search lbl cs)
      else rx_labelled_search lbl cs)"

datatype log_level = Debug | Info | Warning

text \<open>
  \<^verbatim>\<open>_get_versions()\<close>, with the records it logs. Only CalledProcessError is caught; an
  OSError leaves the function.
\<close>

definition get_versions :: "proc_result \<Rightarrow> log_level list \<times> (error + string \<times> string)" where
  "get_versions res =
     (case res of
        Completed out \<Rightarrow>
          ([], Inr (case rx_labelled_search ''ROCM-SMI version:'' out of
                      Some g \<Rightarrow> strip g | None \<Rightarrow> [],
                    case rx_labelled_search ''ROCM-SMI-LIB version:'' out of
                      Some g \<Rightarrow> strip g | None \<Rightarrow> []))
      | NonZeroExit rc \<Rightarrow> ([Warning], Inr ([], []))
      | SpawnFailed \<Rightarrow> ([], Inl OSError))"

text \<open>
  The main program after the HTTP server is started: the version query, then the poll
  loop.
\<close>

definition main_program ::
  "(pyfloat \<Rightarrow> string) \<Rightarrow> (string \<Rightarrow> snapshot option) \<Rightarrow> proc_result \<Rightarrow>
     proc_result list \<Rightarrow> registry \<Rightarrow> error option \<times> registry" where
  "main_program frepr loads ver_res results reg =
     (case snd (get_versions ver_res) of
        Inl err \<Rightarrow> (Some err, reg)
      | Inr vers \<Rightarrow> poll_loop frepr loads vers results reg)"

subsection \<open>The normalizer calls of the loop body\<close>

text \<open>
  The same statements with the call of \<^verbatim>\<open>_to_float\<close> taken apart: for each statement after
  the device-info gauge, the value passed to \<^verbatim>\<open>_to_float\<close>, the scale passed (no call of
  the source gives one, so it is the default \<open>1.0\<close>), and what the statement does with the
  result. \<open>device_steps_calls\<close> below proves that running these calls is the loop body.
\<close>

type_synonym call = "pyval \<times> pyfloat \<times> (pyfloat option \<Rightarrow> registry \<Rightarrow> registry)"

definition run_call :: "call \<Rightarrow> step" where
  "run_call c = (case c of (v, scale, k) \<Rightarrow> bind_arg (to_float v scale) k)"

definition device_calls :: "(pyfloat \<Rightarrow> string) \<Rightarrow> fields \<Rightarrow> call list" where
  "device_calls frepr m =
     [(dict_get m (first_key m [''Temperature (Sensor edge) (C)'', ''temperature_edge (C)'']),
       lit_1_0, set_if_not_none gpuEdgeTemperature (labels frepr m)),
      (dict_get m (first_key m
         [''Temperature (Sensor junction) (C)'', ''temperature_hotspot (C)'']),
       lit_1_0, set_if_not_none gpuJunctionTemperature (labels frepr m)),
      (dict_get m (first_key m [''Temperature (Sensor memory) (C)'', ''temperature_mem (C)'']),
       lit_1_0, set_if_not_none gpuMemTemperature (labels frepr m)),
      (dict_get m (first_key m [''GPU use (%)'', ''average_gfx_activity (%)'']),
       lit_1_0, set_if_not_none gpuUsage (labels frepr m)),
      (dict_get m (Some ''GPU Memory Allocated (VRAM%)''),
       lit_1_0, set_if_not_none gpuVRAMUsage (labels frepr m)),
      (dict_get m (Some ''average_umc_activity (%)''),
       lit_1_0, set_if_not_none umcActivity (labels frepr m)),
      (dict_get m (Some ''average_mm_activity (%)''),
       lit_1_0, set_if_not_none mmActivity (labels frepr m)),
      (dict_get m (first_key m
         [''Current Socket Graphics Package Power (W)'', ''current_socket_power (W)'']),
       lit_1_0, set_if_not_none socketPowerNow (labels frepr m)),
      (dict_get m (first_key m [''average_socket_power (W)'']),
       lit_1_0, set_if_not_none socketPowerAvg (labels frepr m)),
      (dict_get m (first_key m [''Average Graphics Package Power (W)'']),
       lit_1_0, set_if_not_none pkgPowerAvg (labels frepr m)),
      (dict_get m (first_key m [''Max Graphics Package Power (W)'']),
       lit_1_0, set_if_not_none pkgPowerMax (labels frepr m))]
     @ map (\<lambda>(rail_key, rail_name).
              (dict_get m (Some rail_key), lit_1_0,
               \<lambda>v reg. case v of None \<Rightarrow> reg
                 | Some x \<Rightarrow> publish voltageMilliV (labels frepr m @ [rail_name]) x reg))
         [(''voltage_soc (mV)'', ''soc''), (''voltage_gfx (mV)'', ''gfx''),
          (''voltage_mem (mV)'', ''mem''), (''Voltage (mV)'', ''vcore'')]
     @ [(dict_get m (Some ''current_fan_speed (rpm)''),
         lit_1_0, set_if_not_none fanRpm (labels frepr m))]
     @ map (\<lambda>(key, cname).
              (dict_get m (Some key), lit_1_0,
               \<lambda>val reg. case val of None \<Rightarrow> reg
                 | Some x \<Rightarrow> publish clkCurrentMHz (labels frepr m @ [cname]) x reg))
         [(''current_gfxclk (MHz)'', ''gfxclk''), (''current_socclk (MHz)'', ''socclk''),
          (''current_uclk (MHz)'', ''uclk''), (''current_vclk0 (MHz)'', ''vclk0''),
          (''current_dclk0 (MHz)'', ''dclk0'')]
     @ map (\<lambda>(key, cname).
              (dict_get m (Some key), lit_1_0,
               \<lambda>val reg. case val of None \<Rightarrow> reg
                 | Some x \<Rightarrow> publish clkAverageMHz (labels frepr m @ [cname]) x reg))
         [(''average_gfxclk_frequency (MHz)'', ''gfxclk''),
          (''average_socclk_frequency (MHz)'', ''socclk''),
          (''average_uclk_frequency (MHz)'', ''uclk''),
          (''average_vclk0_frequency (MHz)'', ''vclk0''),
          (''average_dclk0_frequency (MHz)'', ''dclk0'')]
     @ [(dict_get m (Some ''pcie_link_width (Lanes)''), lit_1_0,
         \<lambda>width reg. case width of None \<Rightarrow> reg
           | Some x \<Rightarrow> publish pcieWidthLanes (labels frepr m) x reg),
        (dict_get m (Some ''pcie_link_speed (0.1 GT/s)''), lit_1_0,
         \<lambda>speed_01 reg. case speed_01 of None \<Rightarrow> reg
           | Some x \<Rightarrow> publish pcieSpeedGTs (labels frepr m) (fmul x lit_0_1) reg),
        (dict_get m (first_key m
           [''energy_accumulator (15.259uJ (2^-16))'', ''Energy counter'']),
         lit_1_0, set_if_not_none energyAccumulatorUJ (labels frepr m)),
        (dict_get m (Some ''Accumulated Energy (uJ)''),
         lit_1_0, set_if_not_none accumulatedEnergyUJ (labels frepr m))]"

text \<open>
  The call of a logical metric of the table: the reconciled value, the scale \<open>1.0\<close>, and a
  publish step that stores the normalised value, times the factor of the metric if it has
  one.
\<close>

definition metric_call :: "(pyfloat \<Rightarrow> string) \<Rightarrow> fields \<Rightarrow> metric \<Rightarrow> call" where
  "metric_call frepr m lm =
     (reconcile m (m_keys lm), lit_1_0,
      \<lambda>v reg. case v of None \<Rightarrow> reg
        | Some x \<Rightarrow> publish (m_gauge lm) (labels frepr m @ m_extra lm)
                     (scaled (m_factor lm) x) reg)"

text \<open>
  The logical metrics whose statements come before that of \<open>lm\<close> in the loop body, and the
  values that make \<^verbatim>\<open>_to_float\<close> raise: the integers that \<^verbatim>\<open>float()\<close> cannot convert.
\<close>

definition earlier_metrics :: "metric \<Rightarrow> metric list" where
  "earlier_metrics lm = takeWhile (\<lambda>a. a \<noteq> lm) logical_metrics"

fun too_large :: "pyval \<Rightarrow> bool" where
  "too_large (PInt i) = (2 ^ 1024 - 2 ^ 970 \<le> \<bar>i\<bar>)"
| "too_large _ = False"

section \<open>Evaluation on concrete inputs\<close>

text \<open>
  The recursive equations of \<open>bit_length\<close> and \<open>strip_twos\<close>, oriented along the
  binary digits of a numeral so that they rewrite concrete arguments only.
\<close>

lemma bit_length_0 [simp]: "bit_length 0 = 0"
  by (simp add: bit_length.simps)

lemma bit_length_1 [simp]: "bit_length 1 = 1"
  by (simp add: bit_length.simps)

lemma bit_length_Suc_0 [simp]: "bit_length (Suc 0) = 1"
  by (simp add: bit_length.simps)

lemma bit_length_Bit0 [simp]:
  "bit_length (numeral (Num.Bit0 n)) = Suc (bit_length (numeral n))"
  by (subst bit_length.simps) simp

lemma bit_length_Bit1 [simp]:
  "bit_length (numeral (Num.Bit1 n)) = Suc (bit_length (numeral n))"
  by (subst bit_length.simps) simp

lemma strip_twos_0 [simp]: "strip_twos 0 e = (0, e)"
  by (simp add: strip_twos.simps)

lemma strip_twos_1 [simp]: "strip_twos 1 e = (1, e)"
  by (simp add: strip_twos.simps)

lemma strip_twos_Suc_0 [simp]: "strip_twos (Suc 0) e = (Suc 0, e)"
  by (simp add: strip_twos.simps)

lemma strip_twos_Bit0 [simp]:
  "strip_twos (numeral (Num.Bit0 n)) e = strip_twos (numeral n) (e + 1)"
  by (subst strip_twos.simps) simp

lemma strip_twos_Bit1 [simp]:
  "strip_twos (numeral (Num.Bit1 n)) e = (numeral (Num.Bit1 n), e)"
  by (subst strip_twos.simps) simp

lemma float_0_1: "lit_0_1 = Fin 3602879701896397 (- 55)"
  by (simp add: lit_0_1_def round_ratio_def Let_def)

lemma to_float_PNone [simp]: "to_float PNone s = Inr None"
  by (simp add: to_float_def)

lemma to_float_PBool [simp]:
  "to_float (PBool b) s = Inr (Some (fmul (if b then lit_1_0 else lit_0_0) s))"
  by (simp add: to_float_def)

lemma to_float_PInt [simp]:
  "to_float (PInt i) s =
     (case py_float_of_int i of Inl err \<Rightarrow> Inl err | Inr x \<Rightarrow> Inr (Some (fmul x s)))"
  by (simp add: to_float_def)

lemma to_float_PFloat [simp]: "to_float (PFloat x) s = Inr (Some (fmul x s))"
  by (simp add: to_float_def)

lemma to_float_PStr:
  "to_float (PStr t) s =
     (if upper (strip t) = ''N/A'' then Inr None
      else case rx_number_search t of
             None \<Rightarrow> Inr None
           | Some u \<Rightarrow> Inr (Some (fmul (float_of_decimal u) s)))"
  by (simp add: to_float_def)

lemmas float_eval = round_ratio_def Let_def fmul_def lit_1_0_def lit_0_0_def py_float_of_int_def

lemmas text_eval = is_space_def strip_def upper_def upper_char_def is_digit_def digit_val_def
  nat_of_digits_def starts_with_digit_def rx_number_match_def float_of_decimal_def
  is_negative_def unsigned_def int_part_def frac_part_def to_float_PStr

section \<open>The Schema Reconciler\<close>

lemma first_key_find: "first_key m keys = find (\<lambda>k. m k \<noteq> None) keys"
  by (induction keys) auto

text \<open>
  C3. The reconciler yields the value stored under the first candidate name that is a
  key of the record, and no value (\<open>PNone\<close>) when no candidate is a key. With the
  candidates \<^verbatim>\<open>["new_key", "old_key"]\<close> and a record that holds both keys, it yields the
  value under \<^verbatim>\<open>"new_key"\<close>.
\<close>

theorem reconcile_first_present:
  "reconcile m keys =
     (case find (\<lambda>k. m k \<noteq> None) keys of
        None \<Rightarrow> PNone
      | Some k \<Rightarrow> (case m k of None \<Rightarrow> PNone | Some v \<Rightarrow> v))
   \<and> reconcile (m(''old_key'' \<mapsto> w, ''new_key'' \<mapsto> v)) [''new_key'', ''old_key''] = v"
proof
  show "reconcile m keys =
     (case find (\<lambda>k. m k \<noteq> None) keys of
        None \<Rightarrow> PNone
      | Some k \<Rightarrow> (case m k of None \<Rightarrow> PNone | Some v \<Rightarrow> v))"
    unfolding reconcile_def first_key_find
    by (cases "find (\<lambda>k. m k \<noteq> None) keys") simp_all
  show "reconcile (m(''old_key'' \<mapsto> w, ''new_key'' \<mapsto> v)) [''new_key'', ''old_key''] = v"
    by (simp add: reconcile_def)
qed

section \<open>The Value Normalizer\<close>

lemma strip_padded:
  assumes pre: "\<forall>c\<in>set pre. is_space c" and post: "\<forall>c\<in>set post. is_space c"
    and x: "\<not> is_space x" and z: "\<not> is_space z"
  shows "strip (pre @ [x, y, z] @ post) = [x, y, z]"
proof -
  have "dropWhile is_space (pre @ ([x, y, z] @ post)) = dropWhile is_space ([x, y, z] @ post)"
    using pre by (intro dropWhile_append2) simp
  then have 1: "dropWhile is_space (pre @ [x, y, z] @ post) = [x, y, z] @ post"
    using x by simp
  have "dropWhile is_space (rev post @ [z, y, x]) = dropWhile is_space [z, y, x]"
    using post by (intro dropWhile_append2) simp
  then have 2: "dropWhile is_space (rev post @ [z, y, x]) = [z, y, x]"
    using z by simp
  show ?thesis
    unfolding strip_def 1 using 2 by simp
qed

lemma letters_not_space:
  "\<not> is_space CHR ''N''" "\<not> is_space CHR ''n''" "\<not> is_space CHR ''A''" "\<not> is_space CHR ''a''"
  by (simp_all add: is_space_def)

lemma upper_na:
  assumes "n = CHR ''N'' \<or> n = CHR ''n''" and "a = CHR ''A'' \<or> a = CHR ''a''"
  shows "upper [n, CHR ''/'', a] = ''N/A''"
  using assms by (elim disjE) (simp_all add: upper_def upper_char_def)

text \<open>
  C2. A text that reads \<^verbatim>\<open>N/A\<close> in any letter case, with any whitespace before and
  after it, and the absent value \<^verbatim>\<open>None\<close> are normalised to no value, whatever the scale.
\<close>

theorem to_float_absent:
  assumes "\<forall>c\<in>set pre. is_space c" and "\<forall>c\<in>set post. is_space c"
    and "n = CHR ''N'' \<or> n = CHR ''n''" and "a = CHR ''A'' \<or> a = CHR ''a''"
  shows "to_float (PStr (pre @ [n, CHR ''/'', a] @ post)) scale = Inr None
         \<and> to_float PNone scale = Inr None"
proof -
  have "\<not> is_space n" "\<not> is_space a"
    using assms(3,4) letters_not_space by auto
  then have "strip (pre @ [n, CHR ''/'', a] @ post) = [n, CHR ''/'', a]"
    using assms(1,2) by (intro strip_padded)
  then have "upper (strip (pre @ [n, CHR ''/'', a] @ post)) = ''N/A''"
    using upper_na [OF assms(3,4)] by simp
  then show ?thesis
    by (simp add: to_float_PStr)
qed

theorem to_float_absent_witness:
  "to_float (PStr ('' '' @ [CHR ''n'', CHR ''/'', CHR ''A''] @ [CHR 0x0A])) lit_0_1 = Inr None
   \<and> to_float PNone lit_0_1 = Inr None"
proof -
  have 1: "\<forall>c\<in>set '' ''. is_space c"
    by (simp add: is_space_def)
  have 2: "\<forall>c\<in>set [CHR 0x0A]. is_space c"
    by (simp add: is_space_def)
  show ?thesis
    using to_float_absent [OF 1 2, of "CHR ''n''" "CHR ''A''" lit_0_1] by simp
qed

lemma starts_with_digit_no_digit:
  "\<forall>c\<in>set s. \<not> is_digit c \<Longrightarrow> \<not> starts_with_digit s"
  by (cases s) (simp_all add: starts_with_digit_def)

lemma rx_number_match_no_digit:
  assumes "\<forall>c\<in>set s. \<not> is_digit c"
  shows "rx_number_match s = None"
proof (cases s)
  case Nil
  then show ?thesis
    by (simp add: rx_number_match_def starts_with_digit_def)
next
  case (Cons c cs)
  have "\<not> starts_with_digit cs" "\<not> starts_with_digit (c # cs)"
    using assms Cons by (simp_all add: starts_with_digit_no_digit)
  then show ?thesis
    unfolding Cons by (simp add: rx_number_match_def)
qed

lemma rx_number_search_no_digit:
  "\<forall>c\<in>set s. \<not> is_digit c \<Longrightarrow> rx_number_search s = None"
  by (induction s) (simp_all add: rx_number_match_no_digit)

text \<open>
  C7, as amended. The normalizer is a total function of the value and the scale. The only
  exception it raises is OverflowError, and it raises it exactly when the value is an
  integer of magnitude at least \<open>2 ^ 1024 - 2 ^ 970\<close>, which \<^verbatim>\<open>float()\<close> cannot convert; in
  every other case it returns a float or no value. Text that holds no decimal digit
  yields no value, never an error. (The float returned need not be finite.)
\<close>

theorem to_float_outcomes:
  "(to_float v scale = Inl OverflowError \<longleftrightarrow> (\<exists>i. v = PInt i \<and> 2 ^ 1024 - 2 ^ 970 \<le> \<bar>i\<bar>))
   \<and> (to_float v scale = Inl OverflowError \<or> (\<exists>r. to_float v scale = Inr r))
   \<and> ((\<forall>c\<in>set s. \<not> is_digit c) \<longrightarrow> to_float (PStr s) scale = Inr None)"
proof (intro conjI impI)
  show "to_float v scale = Inl OverflowError \<longleftrightarrow> (\<exists>i. v = PInt i \<and> 2 ^ 1024 - 2 ^ 970 \<le> \<bar>i\<bar>)"
    by (cases v) (simp_all add: to_float_PStr py_float_of_int_def split: option.split)
  show "to_float v scale = Inl OverflowError \<or> (\<exists>r. to_float v scale = Inr r)"
    by (cases v) (simp_all add: to_float_PStr py_float_of_int_def split: option.split)
next
  assume "\<forall>c\<in>set s. \<not> is_digit c"
  then show "to_float (PStr s) scale = Inr None"
    by (simp add: to_float_PStr rx_number_search_no_digit)
qed

theorem to_float_outcomes_witness:
  "to_float (PInt (2 ^ 1024)) lit_1_0 = Inl OverflowError
   \<and> to_float (PStr ''abc'') lit_1_0 = Inr None"
  using to_float_outcomes [of "PInt (2 ^ 1024)" lit_1_0 "''abc''"]
  by (simp add: is_digit_def)

text \<open>
  C7 as stated does not hold: the JSON integer \<open>2 ^ 1024\<close> makes \<^verbatim>\<open>float(v)\<close> raise
  OverflowError, and the float \<^verbatim>\<open>inf\<close> (which \<^verbatim>\<open>json.loads\<close> yields for \<^verbatim>\<open>1e999\<close>) is
  returned as it is, a value that is not finite.
\<close>

theorem to_float_total_counterexample:
  "to_float (PInt (2 ^ 1024)) lit_1_0 = Inl OverflowError
   \<and> to_float (PFloat PInf) lit_1_0 = Inr (Some PInf) \<and> \<not> is_finite PInf"
  by (simp add: py_float_of_int_def fmul_def lit_1_0_def)

section \<open>The Device Snapshot Processor\<close>

lemma set_if_not_none_eta:
  "set_if_not_none g ls = (\<lambda>v reg. case v of None \<Rightarrow> reg | Some x \<Rightarrow> publish g ls x reg)"
  by (intro ext) (simp add: set_if_not_none_def)

lemma reconcile_single: "reconcile m [k] = dict_get m (Some k)"
  by (simp add: reconcile_def split: option.split)

lemma device_steps_table:
  "device_steps frepr m = device_info_step frepr m # map (metric_step frepr m) logical_metrics"
  unfolding device_steps_def logical_metrics_def
  by (simp add: metric_step_def scaled_def set_if_not_none_eta reconcile_single
        reconcile_def [symmetric] del: first_key.simps cong: option.case_cong)

lemma to_float_is_na: "is_na v \<Longrightarrow> to_float v scale = Inr None"
  by (simp add: to_float_def)

lemma run_steps_frame:
  assumes "\<And>s r r'. s \<in> set ss \<Longrightarrow> s r = Inr r' \<Longrightarrow> r' k = r k"
  shows "snd (run_steps ss reg) k = reg k"
  using assms
proof (induction ss arbitrary: reg)
  case Nil
  then show ?case by simp
next
  case (Cons s ss)
  show ?case
  proof (cases "s reg")
    case (Inl err)
    then show ?thesis by simp
  next
    case (Inr reg')
    have "snd (run_steps ss reg') k = reg' k"
      using Cons.prems by (intro Cons.IH) auto
    moreover have "reg' k = reg k"
      using Cons.prems [of s reg reg'] Inr by simp
    ultimately show ?thesis
      using Inr by simp
  qed
qed

lemma metric_step_cases:
  "metric_step frepr m lm r =
     (case to_float (reconcile m (m_keys lm)) lit_1_0 of
        Inl err \<Rightarrow> Inl err
      | Inr None \<Rightarrow> Inr r
      | Inr (Some x) \<Rightarrow> Inr (r(sample_key frepr m lm \<mapsto> scaled (m_factor lm) x)))"
  by (simp add: metric_step_def bind_arg_def publish_def sample_key_def
        split: sum.split option.split)

lemma metric_step_other:
  "metric_step frepr m lm r = Inr r' \<Longrightarrow> sample_key frepr m lm \<noteq> k \<Longrightarrow> r' k = r k"
  by (auto simp add: metric_step_cases split: sum.splits option.splits)

lemma metric_step_absent:
  "to_float (reconcile m (m_keys lm)) lit_1_0 = Inr None \<Longrightarrow> metric_step frepr m lm r = Inr r'
     \<Longrightarrow> r' = r"
  by (simp add: metric_step_cases)

lemma device_info_step_frame:
  "device_info_step frepr m r = Inr r' \<Longrightarrow> g \<noteq> deviceInfo \<Longrightarrow> r' (g, ls) = r (g, ls)"
  by (auto simp add: device_info_step_def publish_def)

lemma metrics_distinct: "distinct (map (\<lambda>lm. (m_gauge lm, m_extra lm)) logical_metrics)"
  by (simp add: logical_metrics_def)

lemma metrics_not_info: "lm \<in> set logical_metrics \<Longrightarrow> m_gauge lm \<noteq> deviceInfo"
  by (auto simp add: logical_metrics_def)

lemma metrics_factor:
  "lm \<in> set logical_metrics \<Longrightarrow>
     m_factor lm = (if m_gauge lm = pcieSpeedGTs then Some lit_0_1 else None)"
  by (auto simp add: logical_metrics_def)

lemma sample_key_eq:
  "sample_key frepr m a = sample_key frepr m b \<longleftrightarrow> (m_gauge a, m_extra a) = (m_gauge b, m_extra b)"
  by (simp add: sample_key_def)

lemma sample_key_inj:
  assumes "a \<in> set logical_metrics" "b \<in> set logical_metrics"
    and "sample_key frepr m a = sample_key frepr m b"
  shows "a = b"
proof -
  have "inj_on (\<lambda>lm. (m_gauge lm, m_extra lm)) (set logical_metrics)"
    using metrics_distinct by (simp add: distinct_map)
  then show ?thesis
    using assms by (auto simp add: sample_key_eq dest: inj_onD)
qed

text \<open>
  C1. For every logical metric of the table and every record: when the reconciled source
  value is absent or reads \<^verbatim>\<open>N/A\<close>, processing the record leaves the sample of that gauge
  under the record's labels as it was before, whether there was one or not. Nothing is
  published in its place.
\<close>

theorem absent_leaves_sample:
  assumes "lm \<in> set logical_metrics" and "is_na (reconcile m (m_keys lm))"
  shows "snd (process_device frepr m reg) (sample_key frepr m lm) = reg (sample_key frepr m lm)"
  unfolding process_device_def device_steps_table
proof (rule run_steps_frame)
  fix s r r'
  assume s: "s \<in> set (device_info_step frepr m # map (metric_step frepr m) logical_metrics)"
    and r: "s r = Inr r'"
  show "r' (sample_key frepr m lm) = r (sample_key frepr m lm)"
  proof (cases "s = device_info_step frepr m")
    case True
    then show ?thesis
      using r metrics_not_info [OF assms(1)]
      by (simp add: sample_key_def device_info_step_frame)
  next
    case False
    then obtain lm' where lm': "lm' \<in> set logical_metrics" "s = metric_step frepr m lm'"
      using s by auto
    show ?thesis
    proof (cases "sample_key frepr m lm' = sample_key frepr m lm")
      case True
      then have "lm' = lm"
        using lm'(1) assms(1) by (rule_tac sample_key_inj)
      moreover have "to_float (reconcile m (m_keys lm)) lit_1_0 = Inr None"
        using assms(2) by (rule to_float_is_na)
      ultimately have "r' = r"
        using r lm'(2) by (auto dest: metric_step_absent)
      then show ?thesis
        by simp
    next
      case False
      then show ?thesis
        using r lm'(2) by (simp add: metric_step_other)
    qed
  qed
qed


theorem absent_leaves_sample_witness:
  "\<forall>frepr.
     snd (process_device frepr
            [''Device Name'' \<mapsto> PStr ''X'', ''GPU Memory Allocated (VRAM%)'' \<mapsto> PStr ''N/A'']
            [(gpuVRAMUsage, [''X'', ''unknown'', ''unknown'']) \<mapsto> Fin 3 0])
       (gpuVRAMUsage, [''X'', ''unknown'', ''unknown'']) = Some (Fin 3 0)"
proof
  fix frepr :: "pyfloat \<Rightarrow> string"
  let ?lm = "Metric gpuVRAMUsage [] [''GPU Memory Allocated (VRAM%)''] None"
  let ?m = "[''Device Name'' \<mapsto> PStr ''X'', ''GPU Memory Allocated (VRAM%)'' \<mapsto> PStr ''N/A'']"
  have 1: "?lm \<in> set logical_metrics"
    by (simp add: logical_metrics_def)
  have 2: "is_na (reconcile ?m (m_keys ?lm))"
    by (simp add: reconcile_def strip_def is_space_def upper_def upper_char_def)
  have 3: "sample_key frepr ?m ?lm = (gpuVRAMUsage, [''X'', ''unknown'', ''unknown''])"
    by (simp add: sample_key_def labels_def dict_get_default_def)
  show "snd (process_device frepr ?m [(gpuVRAMUsage, [''X'', ''unknown'', ''unknown'']) \<mapsto> Fin 3 0])
       (gpuVRAMUsage, [''X'', ''unknown'', ''unknown'']) = Some (Fin 3 0)"
    using absent_leaves_sample [OF 1 2, of frepr "[(gpuVRAMUsage, [''X'', ''unknown'', ''unknown'']) \<mapsto> Fin 3 0]"]
    unfolding 3 by simp
qed

lemma run_metrics_frame:
  assumes "\<forall>lm'\<in>set ms. sample_key frepr m lm' \<noteq> k"
  shows "snd (run_steps (map (metric_step frepr m) ms) reg) k = reg k"
  using assms by (intro run_steps_frame) (auto dest: metric_step_other)

lemma to_float_returns: "\<not> too_large v \<Longrightarrow> \<exists>r. to_float v scale = Inr r"
  by (cases v) (simp_all add: to_float_PStr py_float_of_int_def split: option.split)

lemma metric_step_returns:
  assumes "\<not> too_large (reconcile m (m_keys lm))"
  shows "\<exists>reg'. metric_step frepr m lm reg = Inr reg'"
proof -
  obtain r where "to_float (reconcile m (m_keys lm)) lit_1_0 = Inr r"
    using to_float_returns [OF assms] by blast
  then show ?thesis
    by (cases r) (simp_all add: metric_step_cases)
qed

lemma run_metrics_reached:
  assumes "distinct (map (sample_key frepr m) ms)" and "lm \<in> set ms"
    and "\<forall>lm'\<in>set (takeWhile (\<lambda>a. a \<noteq> lm) ms). \<not> too_large (reconcile m (m_keys lm'))"
    and "to_float (reconcile m (m_keys lm)) lit_1_0 = Inr (Some x)"
  shows "snd (run_steps (map (metric_step frepr m) ms) reg) (sample_key frepr m lm)
           = Some (scaled (m_factor lm) x)"
  using assms
proof (induction ms arbitrary: reg)
  case Nil
  then show ?case by simp
next
  case (Cons a ms)
  show ?case
  proof (cases "a = lm")
    case True
    then have step: "metric_step frepr m a reg
        = Inr (reg(sample_key frepr m lm \<mapsto> scaled (m_factor lm) x))"
      using Cons.prems(4) by (simp add: metric_step_cases)
    have "\<forall>lm'\<in>set ms. sample_key frepr m lm' \<noteq> sample_key frepr m lm"
      using Cons.prems(1) True by (auto simp add: image_iff)
    then have "snd (run_steps (map (metric_step frepr m) ms)
          (reg(sample_key frepr m lm \<mapsto> scaled (m_factor lm) x))) (sample_key frepr m lm)
        = (reg(sample_key frepr m lm \<mapsto> scaled (m_factor lm) x)) (sample_key frepr m lm)"
      by (rule run_metrics_frame)
    then show ?thesis
      using step by simp
  next
    case False
    then have "\<not> too_large (reconcile m (m_keys a))"
      using Cons.prems(3) by simp
    then obtain reg' where step: "metric_step frepr m a reg = Inr reg'"
      using metric_step_returns by blast
    have "lm \<in> set ms"
      using Cons.prems(2) False by simp
    moreover have "distinct (map (sample_key frepr m) ms)"
      using Cons.prems(1) by simp
    moreover have "\<forall>lm'\<in>set (takeWhile (\<lambda>a. a \<noteq> lm) ms). \<not> too_large (reconcile m (m_keys lm'))"
      using Cons.prems(3) False by simp
    ultimately have "snd (run_steps (map (metric_step frepr m) ms) reg') (sample_key frepr m lm)
        = Some (scaled (m_factor lm) x)"
      using Cons.prems(4) by (intro Cons.IH)
    then show ?thesis
      using step by simp
  qed
qed

lemma sample_keys_distinct: "distinct (map (sample_key frepr m) logical_metrics)"
  using metrics_distinct by (auto simp add: distinct_map inj_on_def sample_key_eq)

lemma process_device_metrics:
  "process_device frepr m reg =
     run_steps (map (metric_step frepr m) logical_metrics)
       (publish deviceInfo (device_info_labels frepr m) lit_1_0 reg)"
  by (simp add: process_device_def device_steps_table device_info_step_def)

lemma process_device_reached:
  assumes "lm \<in> set logical_metrics"
    and "\<forall>lm'\<in>set (earlier_metrics lm). \<not> too_large (reconcile m (m_keys lm'))"
    and "to_float (reconcile m (m_keys lm)) lit_1_0 = Inr (Some x)"
  shows "snd (process_device frepr m reg) (sample_key frepr m lm) = Some (scaled (m_factor lm) x)"
  using assms unfolding process_device_metrics earlier_metrics_def
  by (intro run_metrics_reached sample_keys_distinct)

lemma device_steps_calls:
  "device_steps frepr m = device_info_step frepr m # map run_call (device_calls frepr m)"
  unfolding device_steps_def device_calls_def
  by (simp add: run_call_def)

lemma device_calls_table:
  "device_calls frepr m = map (metric_call frepr m) logical_metrics"
  unfolding device_calls_def logical_metrics_def
  by (simp add: metric_call_def scaled_def set_if_not_none_eta reconcile_single
        reconcile_def [symmetric] del: first_key.simps cong: option.case_cong)

text \<open>
  C4, as amended. Every call of the normalizer in the loop body leaves the scale at its
  default \<open>1.0\<close>, so no unit conversion takes place inside the normalizer: the calls of the
  loop body are those of the table, each with the scale \<open>1.0\<close>, and only the PCIe link
  speed has a factor, \<open>0.1\<close>, which its publish step applies to the normalised value (still
  in tenths of GT/s). The conversion is applied once, at publish time, between the
  normalizer and the gauge. Consequently, when the statements before that of a metric do
  not raise (no field they read is an integer too large for \<^verbatim>\<open>float()\<close>) and the normalizer
  returns a value for the metric, the sample of the metric after the record is processed
  is that value, times \<open>0.1\<close> for the PCIe link speed, also when a later statement raises.
\<close>

theorem published_value:
  assumes "lm \<in> set logical_metrics"
    and "\<forall>lm'\<in>set (earlier_metrics lm). \<not> too_large (reconcile m (m_keys lm'))"
    and "to_float (reconcile m (m_keys lm)) lit_1_0 = Inr (Some x)"
  shows "device_steps frepr m = device_info_step frepr m # map run_call (device_calls frepr m)
    \<and> device_calls frepr m = map (metric_call frepr m) logical_metrics
    \<and> fst (snd (metric_call frepr m lm)) = lit_1_0
    \<and> m_factor lm = (if m_gauge lm = pcieSpeedGTs then Some lit_0_1 else None)
    \<and> snd (process_device frepr m reg) (sample_key frepr m lm)
          = Some (if m_gauge lm = pcieSpeedGTs then fmul x lit_0_1 else x)"
proof -
  have "scaled (m_factor lm) x = (if m_gauge lm = pcieSpeedGTs then fmul x lit_0_1 else x)"
    using metrics_factor [OF assms(1)] by (simp add: scaled_def)
  then have "snd (process_device frepr m reg) (sample_key frepr m lm)
          = Some (if m_gauge lm = pcieSpeedGTs then fmul x lit_0_1 else x)"
    using process_device_reached [OF assms] by simp
  then show ?thesis
    using metrics_factor [OF assms(1)]
    by (simp add: device_steps_calls device_calls_table metric_call_def)
qed


subsection \<open>Concrete records\<close>

lemma float_160: "py_float_of_int 160 = Inr (Fin 5 5)"
  by (simp add: py_float_of_int_def round_ratio_def Let_def)

lemma fmul_160_1: "fmul (Fin 5 5) lit_1_0 = Fin 5 5"
  by (simp add: fmul_def lit_1_0_def round_ratio_def Let_def)

lemma fmul_160_tenth: "fmul (Fin 5 5) lit_0_1 = Fin 1 4"
  by (simp add: fmul_def float_0_1 round_ratio_def Let_def)

lemma to_float_160: "to_float (PInt 160) lit_1_0 = Inr (Some (Fin 5 5))"
  by (simp add: float_160 fmul_160_1)

lemma to_float_37_5: "to_float (PStr ''37.5%'') lit_1_0 = Inr (Some (Fin 75 (- 1)))"
  by (simp add: float_eval text_eval)

lemma float_too_large:
  "2 ^ 1024 - 2 ^ 970 \<le> \<bar>i\<bar> \<Longrightarrow> py_float_of_int i = Inl OverflowError"
  by (simp add: py_float_of_int_def)

lemma pcie_metric:
  "Metric pcieSpeedGTs [] [''pcie_link_speed (0.1 GT/s)''] (Some lit_0_1) \<in> set logical_metrics"
  by (simp add: logical_metrics_def)

lemma late_overflow_earlier:
  "\<forall>lm'\<in>set (earlier_metrics (Metric pcieSpeedGTs [] [''pcie_link_speed (0.1 GT/s)''] (Some lit_0_1))).
     \<not> too_large (reconcile
          [''pcie_link_speed (0.1 GT/s)'' \<mapsto> PInt 160, ''Accumulated Energy (uJ)'' \<mapsto> PInt (2 ^ 1024)]
          (m_keys lm'))"
  by (simp add: earlier_metrics_def logical_metrics_def reconcile_def)

lemma late_overflow_raises:
  "fst (process_device frepr
          [''pcie_link_speed (0.1 GT/s)'' \<mapsto> PInt 160, ''Accumulated Energy (uJ)'' \<mapsto> PInt (2 ^ 1024)]
          reg) = Some OverflowError"
  unfolding process_device_metrics logical_metrics_def
  by (simp add: metric_step_cases reconcile_def float_160 fmul_160_1 float_too_large)

theorem published_value_witness:
  "\<forall>frepr.
     fst (process_device frepr
            [''pcie_link_speed (0.1 GT/s)'' \<mapsto> PInt 160, ''Accumulated Energy (uJ)'' \<mapsto> PInt (2 ^ 1024)]
            Map.empty) = Some OverflowError
     \<and> snd (process_device frepr
            [''pcie_link_speed (0.1 GT/s)'' \<mapsto> PInt 160, ''Accumulated Energy (uJ)'' \<mapsto> PInt (2 ^ 1024)]
            Map.empty)
         (pcieSpeedGTs, [''unknown'', ''unknown'', ''unknown'']) = Some (Fin 1 4)"
proof
  fix frepr :: "pyfloat \<Rightarrow> string"
  let ?lm = "Metric pcieSpeedGTs [] [''pcie_link_speed (0.1 GT/s)''] (Some lit_0_1)"
  let ?m = "[''pcie_link_speed (0.1 GT/s)'' \<mapsto> PInt 160,
             ''Accumulated Energy (uJ)'' \<mapsto> PInt (2 ^ 1024)]"
  have key: "sample_key frepr ?m ?lm = (pcieSpeedGTs, [''unknown'', ''unknown'', ''unknown''])"
    by (simp add: sample_key_def labels_def dict_get_default_def)
  have norm: "to_float (reconcile ?m (m_keys ?lm)) lit_1_0 = Inr (Some (Fin 5 5))"
    by (simp add: reconcile_def float_160 fmul_160_1)
  have "snd (process_device frepr ?m Map.empty)
       (pcieSpeedGTs, [''unknown'', ''unknown'', ''unknown'']) = Some (Fin 1 4)"
    using published_value [OF pcie_metric late_overflow_earlier norm, of frepr Map.empty]
    unfolding key by (simp add: fmul_160_tenth)
  then show "fst (process_device frepr ?m Map.empty) = Some OverflowError
     \<and> snd (process_device frepr ?m Map.empty)
         (pcieSpeedGTs, [''unknown'', ''unknown'', ''unknown'']) = Some (Fin 1 4)"
    using late_overflow_raises by simp
qed

text \<open>
  C4 as stated does not hold. For the record whose only field is
  \<^verbatim>\<open>pcie_link_speed (0.1 GT/s)\<close> = 160, the call of the loop body for the PCIe link speed
  (the 28th call, at index 27) passes 160 to the normalizer with the scale \<open>1.0\<close>; the
  normalizer returns \<open>Fin 5 5\<close>, that is 160.0, still in tenths of GT/s; and the rest of
  the statement, given 160.0, stores \<open>Fin 1 4\<close>, that is 16.0. The conversion takes place
  after the normalizer has returned.
\<close>

theorem conversion_at_publish_counterexample:
  "(\<forall>frepr. fst (device_calls frepr [''pcie_link_speed (0.1 GT/s)'' \<mapsto> PInt 160] ! 27) = PInt 160)
   \<and> (\<forall>frepr. fst (snd (device_calls frepr [''pcie_link_speed (0.1 GT/s)'' \<mapsto> PInt 160] ! 27))
         = lit_1_0)
   \<and> to_float (PInt 160) lit_1_0 = Inr (Some (Fin 5 5))
   \<and> (\<forall>frepr. snd (snd (device_calls frepr [''pcie_link_speed (0.1 GT/s)'' \<mapsto> PInt 160] ! 27))
         (Some (Fin 5 5)) Map.empty
         = [(pcieSpeedGTs, [''unknown'', ''unknown'', ''unknown'']) \<mapsto> Fin 1 4])
   \<and> Fin 5 5 \<noteq> Fin 1 4"
  by (simp add: device_calls_def float_160 fmul_160_1 fmul_160_tenth publish_def labels_def
        dict_get_default_def)






lemma usage_record:
  "process_device frepr [''Device Name'' \<mapsto> PStr ''X'', ''GPU use (%)'' \<mapsto> PStr ''37.5%''] reg =
     (None, reg((deviceInfo, [''X'', ''unknown'', ''unknown'', [], [], [], []]) \<mapsto> Fin 1 0,
                (gpuUsage, [''X'', ''unknown'', ''unknown'']) \<mapsto> Fin 75 (- 1)))"
  unfolding process_device_metrics logical_metrics_def
  by (simp add: metric_step_cases reconcile_def to_float_37_5 [unfolded lit_1_0_def] publish_def device_info_labels_def
        labels_def gfx_version_def py_or_def dict_get_default_def sample_key_def scaled_def lit_1_0_def)

text \<open>
  C8. A snapshot with the single device record
  \<^verbatim>\<open>{"Device Name": "X", "GPU use (%)": "37.5%"}\<close> is processed without an exception. The
  labels of the record are \<open>X\<close>, \<open>unknown\<close>, \<open>unknown\<close>; the GPU-usage gauge holds
  \<open>Fin 75 (- 1)\<close>, that is \<open>75 / 2\<close>, exactly 37.5, under these labels; and every sample of
  the VRAM-allocation gauge is what it was before the cycle, so none is published.
\<close>

theorem usage_snapshot:
  assumes "card_name \<noteq> ''system''"
  shows "fst (process_snapshot frepr vers
            [(card_name, [''Device Name'' \<mapsto> PStr ''X'', ''GPU use (%)'' \<mapsto> PStr ''37.5%''])] reg) = None
    \<and> labels frepr [''Device Name'' \<mapsto> PStr ''X'', ''GPU use (%)'' \<mapsto> PStr ''37.5%'']
        = [''X'', ''unknown'', ''unknown'']
    \<and> snd (process_snapshot frepr vers
            [(card_name, [''Device Name'' \<mapsto> PStr ''X'', ''GPU use (%)'' \<mapsto> PStr ''37.5%''])] reg)
          (gpuUsage, [''X'', ''unknown'', ''unknown'']) = Some (Fin 75 (- 1))
    \<and> (\<forall>ls. snd (process_snapshot frepr vers
            [(card_name, [''Device Name'' \<mapsto> PStr ''X'', ''GPU use (%)'' \<mapsto> PStr ''37.5%''])] reg)
          (gpuVRAMUsage, ls) = reg (gpuVRAMUsage, ls))"
  using assms
  by (simp add: process_snapshot_def software_info_def usage_record labels_def dict_get_default_def)

theorem usage_snapshot_witness:
  "\<forall>frepr vers.
     snd (process_snapshot frepr vers
            [(''card0'', [''Device Name'' \<mapsto> PStr ''X'', ''GPU use (%)'' \<mapsto> PStr ''37.5%''])] Map.empty)
          (gpuUsage, [''X'', ''unknown'', ''unknown'']) = Some (Fin 75 (- 1))
   \<and> snd (process_snapshot frepr vers
            [(''card0'', [''Device Name'' \<mapsto> PStr ''X'', ''GPU use (%)'' \<mapsto> PStr ''37.5%''])] Map.empty)
          (gpuVRAMUsage, [''X'', ''unknown'', ''unknown'']) = None"
proof (intro allI)
  fix frepr :: "pyfloat \<Rightarrow> string" and vers :: "string \<times> string"
  have "''card0'' \<noteq> ''system''"
    by simp
  from usage_snapshot [OF this, of frepr vers Map.empty]
  show "snd (process_snapshot frepr vers
            [(''card0'', [''Device Name'' \<mapsto> PStr ''X'', ''GPU use (%)'' \<mapsto> PStr ''37.5%''])] Map.empty)
          (gpuUsage, [''X'', ''unknown'', ''unknown'']) = Some (Fin 75 (- 1))
   \<and> snd (process_snapshot frepr vers
            [(''card0'', [''Device Name'' \<mapsto> PStr ''X'', ''GPU use (%)'' \<mapsto> PStr ''37.5%''])] Map.empty)
          (gpuVRAMUsage, [''X'', ''unknown'', ''unknown'']) = None"
    by simp
qed

section \<open>Failures of the external tool\<close>

text \<open>
  C5. When the status command exits with a non-zero status, or its output is not valid
  JSON, the cycle ends with that exception and the registry is exactly what it was before
  the cycle: no record has been processed. Nothing catches the exception, so it ends the
  poll loop, and with it the process, whatever the later cycles would have read.
\<close>

theorem snapshot_failure_fatal:
  "cycle frepr loads vers (NonZeroExit rc) reg = (Some (CalledProcessError rc), reg)
   \<and> poll_loop frepr loads vers (NonZeroExit rc # rest) reg = (Some (CalledProcessError rc), reg)
   \<and> (loads out = None \<longrightarrow>
        cycle frepr loads vers (Completed out) reg = (Some JSONDecodeError, reg)
        \<and> poll_loop frepr loads vers (Completed out # rest) reg = (Some JSONDecodeError, reg))"
  by (simp add: cycle_def getGPUMetrics_def)

theorem snapshot_failure_fatal_witness:
  "\<forall>frepr vers rest reg.
     poll_loop frepr (\<lambda>s. if s = ''{}'' then Some [] else None) vers (Completed ''not json'' # rest) reg
       = (Some JSONDecodeError, reg)"
  using snapshot_failure_fatal [of _ "\<lambda>s. if s = ''{}'' then Some [] else None" _ _ _ _ "''not json''"]
  by simp

text \<open>
  C6, as amended. When the version query exits with a non-zero status, the failure is not
  fatal: one warning is logged, both version strings are empty and the poll loop starts.
  When the output of the query does not match one of the two version patterns, the
  corresponding version string is empty and nothing is logged.
\<close>

theorem version_query_failure:
  "get_versions (NonZeroExit rc) = ([Warning], Inr ([], []))
   \<and> main_program frepr loads (NonZeroExit rc) results reg = poll_loop frepr loads ([], []) results reg
   \<and> (rx_labelled_search ''ROCM-SMI version:'' out = None \<longrightarrow>
        fst (get_versions (Completed out)) = []
        \<and> (\<exists>lib. snd (get_versions (Completed out)) = Inr ([], lib)))
   \<and> (rx_labelled_search ''ROCM-SMI-LIB version:'' out = None \<longrightarrow>
        fst (get_versions (Completed out)) = []
        \<and> (\<exists>ver. snd (get_versions (Completed out)) = Inr (ver, [])))"
  by (simp add: get_versions_def main_program_def)

theorem version_query_failure_witness:
  "get_versions (Completed ''rocm-smi: unknown option'') = ([], Inr ([], []))"
proof -
  have 1: "rx_labelled_search ''ROCM-SMI version:'' ''rocm-smi: unknown option'' = None"
    by simp
  have 2: "rx_labelled_search ''ROCM-SMI-LIB version:'' ''rocm-smi: unknown option'' = None"
    by simp
  show ?thesis
    using version_query_failure
      [of 0 "\<lambda>x. []" "\<lambda>s. None" "[]" Map.empty "''rocm-smi: unknown option''"] 1 2
    by (auto simp add: prod_eq_iff)
qed

text \<open>
  C6 as stated does not hold for every failure of the invocation: when the tool cannot be
  started (it is not installed, or not executable), \<^verbatim>\<open>check_output\<close> raises an OSError,
  which the handler for CalledProcessError does not catch, and the program ends at
  startup.
\<close>

theorem version_query_spawn_counterexample:
  "get_versions SpawnFailed = ([], Inl OSError)
   \<and> (\<forall>frepr loads results reg. main_program frepr loads SpawnFailed results reg = (Some OSError, reg))"
  by (simp add: get_versions_def main_program_def)

text \<open>The version query on a well-formed output, for comparison.\<close>

lemma versions_parsed:
  "get_versions (Completed (''ROCM-SMI version: 3.0.0+a1b2'' @ [CHR 0x0A]
      @ ''ROCM-SMI-LIB version: 7.8.0'' @ [CHR 0x0A]))
   = ([], Inr (''3.0.0+a1b2'', ''7.8.0''))"
  by (simp add: get_versions_def rx_rest_group_def is_space_def strip_def)

section \<open>The device-info labels\<close>

text \<open>
  C10, as amended. The \<^verbatim>\<open>gfx_version\<close> label falls back from the field \<^verbatim>\<open>GFX Version\<close> to
  the field \<^verbatim>\<open>GFX version\<close> by the truthiness of the first value, not by the presence of
  the key: when \<^verbatim>\<open>GFX Version\<close> is present with a falsy value, or absent, the label is taken
  from \<^verbatim>\<open>GFX version\<close> (the empty string when that is absent too); \<^verbatim>\<open>GFX Version\<close> wins
  exactly when its value is truthy, which a non-empty string is, and so is a non-zero
  number or \<^verbatim>\<open>true\<close>.
\<close>

theorem gfx_version_truthiness:
  "(m ''GFX Version'' = Some v \<and> \<not> truthy v \<longrightarrow>
      gfx_version frepr m = py_str frepr (dict_get_default m ''GFX version'' (PStr [])))
   \<and> (m ''GFX Version'' = Some v \<and> truthy v \<longrightarrow> gfx_version frepr m = py_str frepr v)
   \<and> (m ''GFX Version'' = None \<longrightarrow>
      gfx_version frepr m = py_str frepr (dict_get_default m ''GFX version'' (PStr [])))"
  by (simp add: gfx_version_def py_or_def dict_get_default_def)

theorem gfx_version_truthiness_witness:
  "\<forall>frepr. gfx_version frepr [''GFX Version'' \<mapsto> PStr [], ''GFX version'' \<mapsto> PStr ''gfx906''] = ''gfx906''"
  using gfx_version_truthiness
    [of "[''GFX Version'' \<mapsto> PStr [], ''GFX version'' \<mapsto> PStr ''gfx906'']" "PStr []"]
  by (simp add: dict_get_default_def)

text \<open>
  C10 as stated does not hold in its last part: \<^verbatim>\<open>GFX Version\<close> also wins with a value that
  is not a string. With the number 5 the label is \<^verbatim>\<open>"5"\<close>, although \<^verbatim>\<open>GFX version\<close> holds
  \<^verbatim>\<open>"gfx906"\<close>.
\<close>

theorem gfx_version_number_counterexample:
  "\<forall>frepr. gfx_version frepr [''GFX Version'' \<mapsto> PInt 5, ''GFX version'' \<mapsto> PStr ''gfx906''] = ''5''"
  by (simp add: gfx_version_def py_or_def dict_get_default_def str_of_nat.simps digit_char_def)

end
